theory Spec2Isabelle
  imports Main
begin

section \<open>The model proxy of the OpenMDAO GUI (Model.js)\<close>

text \<open>
  The object \<^verbatim>\<open>openmdao.Model\<close> keeps three private variables (the listener array
  \<^verbatim>\<open>callbacks\<close>, the cached model \<^verbatim>\<open>modelJSON\<close> and the type catalog
  \<^verbatim>\<open>types\<close>) and talks to the server through \<^verbatim>\<open>jQuery.ajax\<close>. The embedding
  passes the three variables as a record and returns, for every method, how the call
  completed, what it did to the outside world (requests handed to \<^verbatim>\<open>jQuery.ajax\<close>,
  calls of caller-supplied functions, lines written to \<^verbatim>\<open>debug\<close>) in the order it
  did it, and the variables afterwards. The answer of the server arrives later, as a call
  of the request's \<^verbatim>\<open>success\<close> function: \<open>ajax_success\<close> below.

  A function handed in by a caller is a value that says what a call of it does to this
  object: it returns and leaves the object alone, it throws, or it registers a listener
  and returns (see \<open>call\<close>). A call is recorded, and an exception of the callee leaves
  the calling method at once, as the source has no \<^verbatim>\<open>try\<close>. Functions that do
  anything else to the object, or never return, are outside this development.
  \<^verbatim>\<open>importFile\<close> and \<^verbatim>\<open>execFile\<close> call string methods on their argument, which
  is therefore a string here; every other argument is any JavaScript value.
  \<^verbatim>\<open>newFile\<close>, \<^verbatim>\<open>newFolder\<close> and \<^verbatim>\<open>uploadFile\<close> only hand over to
  \<^verbatim>\<open>openmdao.Util\<close>, which is not part of Model.js, and are left out.
\<close>

subsection \<open>JavaScript values\<close>

text \<open>
  Numbers carry an integer: the program only ever asks a number for its \<^verbatim>\<open>typeof\<close>
  and writes the constant 1. Strings are lists of 8-bit characters. An object is the list
  of its own properties, the first binding of a key being the one in force. \<open>JXml\<close> is
  a parsed XML document, \<open>JQuery sel ctx\<close> the result of \<^verbatim>\<open>jQuery(sel, ctx)\<close>,
  \<open>JHost\<close> any other object of the browser (the \<^verbatim>\<open>jqXHR\<close> of a response).

  Functions: \<open>JFun n\<close> returns when called and leaves this object alone;
  \<open>JThrows n\<close> throws when called; \<open>JRegisters n v\<close> calls
  \<^verbatim>\<open>addListener(v)\<close> on this object and returns; \<open>JNative name\<close> is a function of
  the JavaScript engine, such as \<^verbatim>\<open>Object.prototype.toString\<close>, of which only the
  \<^verbatim>\<open>typeof\<close> is known here.
\<close>

datatype jsval =
    JUndefined
  | JNull
  | JBool bool
  | JNum int
  | JStr string
  | JArr "jsval list"
  | JObj "(string \<times> jsval) list"
  | JFun nat
  | JThrows nat
  | JRegisters nat jsval
  | JNative string
  | JXml string
  | JQuery string jsval
  | JHost string

fun typeof :: "jsval \<Rightarrow> string" where
  "typeof JUndefined = ''undefined''"
| "typeof JNull = ''object''"
| "typeof (JBool b) = ''boolean''"
| "typeof (JNum n) = ''number''"
| "typeof (JStr s) = ''string''"
| "typeof (JFun f) = ''function''"
| "typeof (JThrows f) = ''function''"
| "typeof (JRegisters f v) = ''function''"
| "typeof (JNative name) = ''function''"
| "typeof (JArr xs) = ''object''"
| "typeof (JObj kvs) = ''object''"
| "typeof (JXml d) = ''object''"
| "typeof (JQuery sel ctx) = ''object''"
| "typeof (JHost h) = ''object''"

text \<open>\<^verbatim>\<open>v == null\<close>: the loose comparison holds of \<^verbatim>\<open>null\<close> and \<^verbatim>\<open>undefined\<close> only.\<close>

fun eq_null :: "jsval \<Rightarrow> bool" where
  "eq_null JUndefined = True"
| "eq_null JNull = True"
| "eq_null v = False"

text \<open>
  What ends a call early: a TypeError of the engine, an exception thrown by a function of
  the caller, or the call of a function of the engine, which is not followed further.
\<close>

datatype error = TypeError | Exception | Not_modelled

text \<open>
  A property name is an array index when it is the decimal numeral of a number, written
  without a sign and without leading zeros.
\<close>

definition is_digit :: "char \<Rightarrow> bool" where
  "is_digit c = (48 \<le> (of_char c :: nat) \<and> (of_char c :: nat) \<le> 57)"

definition array_index :: "string \<Rightarrow> nat option" where
  "array_index k =
     (if k = [] then None
      else if list_ex (\<lambda>c. \<not> is_digit c) k then None
      else if hd k = CHR ''0'' \<and> 1 < length k then None
      else Some (foldl (\<lambda>n c. 10 * n + ((of_char c :: nat) - 48)) 0 k))"

text \<open>
  The properties a value has of its own: the keys of an object, the indices and the
  length of an array or a string.
\<close>

fun own_prop :: "jsval \<Rightarrow> string \<Rightarrow> jsval option" where
  "own_prop (JObj kvs) k = map_of kvs k"
| "own_prop (JArr xs) k =
     (if k = ''length'' then Some (JNum (int (length xs)))
      else (case array_index k of
              Some n \<Rightarrow> if n < length xs then Some (xs ! n) else None
            | None \<Rightarrow> None))"
| "own_prop (JStr s) k =
     (if k = ''length'' then Some (JNum (int (length s)))
      else (case array_index k of
              Some n \<Rightarrow> if n < length s then Some (JStr [s ! n]) else None
            | None \<Rightarrow> None))"
| "own_prop v k = None"

text \<open>
  \<^verbatim>\<open>obj[k]\<close>: reading a property of \<^verbatim>\<open>null\<close> or \<^verbatim>\<open>undefined\<close> throws a
  TypeError. Otherwise the value's own property is read; when it has none of that name,
  the read goes on to what the JavaScript engine provides for the value, which is the
  parameter \<open>builtin\<close>: the members inherited from the built-in prototypes
  (\<^verbatim>\<open>constructor\<close>, \<^verbatim>\<open>toString\<close>, \<^verbatim>\<open>push\<close>, ...) and the members of functions
  and of objects of the browser. A property found nowhere reads as \<^verbatim>\<open>undefined\<close>.
\<close>

definition get_prop :: "(jsval \<Rightarrow> string \<Rightarrow> jsval option) \<Rightarrow> jsval \<Rightarrow> string \<Rightarrow> error + jsval" where
  "get_prop builtin obj k =
     (if eq_null obj then Inl TypeError
      else Inr (case own_prop obj k of
                  Some v \<Rightarrow> v
                | None \<Rightarrow> (case builtin obj k of Some v \<Rightarrow> v | None \<Rightarrow> JUndefined)))"

text \<open>
  A least engine, to run the definitions on: every value inherits the seven members of
  \<^verbatim>\<open>Object.prototype\<close> of ECMAScript 5.1 and nothing else. Engines in use provide
  more (the methods of arrays, strings, numbers and functions, and later editions more
  still); the properties below are stated for every \<open>builtin\<close>.
\<close>

definition object_prototype :: "jsval \<Rightarrow> string \<Rightarrow> jsval option" where
  "object_prototype v k =
     (if k \<in> set [''constructor'', ''toString'', ''toLocaleString'', ''valueOf'',
                   ''hasOwnProperty'', ''isPrototypeOf'', ''propertyIsEnumerable'']
      then Some (JNative k) else None)"

subsection \<open>Strings\<close>

text \<open>\<^verbatim>\<open>s.split(sep)\<close> for a one-character separator: one more piece than separators.\<close>

fun split :: "char \<Rightarrow> string \<Rightarrow> string list" where
  "split sep [] = [[]]"
| "split sep (c # cs) =
     (if c = sep then [] # split sep cs
      else (case split sep cs of
              w # ws \<Rightarrow> (c # w) # ws
            | [] \<Rightarrow> [[c]]))"

text \<open>
  \<^verbatim>\<open>s.replace(/\\/g, r)\<close> and \<^verbatim>\<open>s.replace(/\//g, r)\<close>: every occurrence of one
  character is replaced by the string \<open>r\<close>.
\<close>

definition replace_char :: "char \<Rightarrow> string \<Rightarrow> string \<Rightarrow> string" where
  "replace_char c r s = concat (map (\<lambda>d. if d = c then r else [d]) s)"

text \<open>
  In a regular expression the dot matches any character but a line terminator (of which
  8-bit strings have two, line feed and carriage return).
\<close>

definition line_terminator :: "char \<Rightarrow> bool" where
  "line_terminator c = (c = CHR 0x0A \<or> c = CHR 0x0D)"

text \<open>
  \<^verbatim>\<open>s.replace(/.py/g, '')\<close>: scanning from the left, every match of "any character,
  then p, then y" is deleted and the scan goes on behind the match.
\<close>

fun replace_dot_py :: "string \<Rightarrow> string" where
  "replace_dot_py (c # d # e # rest) =
     (if \<not> line_terminator c \<and> d = CHR ''p'' \<and> e = CHR ''y''
      then replace_dot_py rest
      else c # replace_dot_py (d # e # rest))"
| "replace_dot_py cs = cs"

text \<open>\<^verbatim>\<open>s.substring(1, s.length)\<close>.\<close>

definition substring1 :: "string \<Rightarrow> string" where
  "substring1 s = drop 1 s"

subsection \<open>Requests, effects and the private variables\<close>

text \<open>
  The \<^verbatim>\<open>success\<close> function of a request is one of the functions of Model.js, or a
  function of the caller handed through as it is.
\<close>

datatype handler =
    H_updateListeners
  | H_getTypes jsval
  | H_getJSON jsval
  | H_issueCommand jsval
  | H_getOutput jsval
  | H_getFolder
  | H_callback jsval

text \<open>
  The settings object given to \<^verbatim>\<open>jQuery.ajax\<close>; a field is \<open>None\<close> when the
  source does not write the property. (\<open>http_type\<close> is the property \<^verbatim>\<open>type\<close>.)
\<close>

record request =
  url :: string
  http_type :: "string option"
  dataType :: "string option"
  data :: "(string \<times> jsval) list option"
  success :: "handler option"
  error :: "jsval option"

datatype event =
    Ajax request
  | Call jsval "jsval list"
  | Debug_info string
  | Debug_error string

record model =
  callbacks :: "jsval list"
  modelJSON :: jsval
  types :: jsval

text \<open>\<^verbatim>\<open>new openmdao.Model()\<close>.\<close>

definition Model :: model where
  "Model = \<lparr>callbacks = [], modelJSON = JNull, types = JNull\<rparr>"

text \<open>How a call ended: \<open>thrown = None\<close> when it returned.\<close>

record run =
  thrown :: "error option"
  effects :: "event list"
  after :: model

definition returns :: "event list \<Rightarrow> model \<Rightarrow> run" where
  "returns es m = \<lparr>thrown = None, effects = es, after = m\<rparr>"

definition throws :: "error \<Rightarrow> event list \<Rightarrow> model \<Rightarrow> run" where
  "throws e es m = \<lparr>thrown = Some e, effects = es, after = m\<rparr>"

definition and_then :: "run \<Rightarrow> (model \<Rightarrow> run) \<Rightarrow> run" where
  "and_then r k =
     (case thrown r of
        Some e \<Rightarrow> r
      | None \<Rightarrow>
          (let r' = k (after r)
           in \<lparr>thrown = thrown r', effects = effects r @ effects r', after = after r'\<rparr>))"

text \<open>
  \<^verbatim>\<open>f(args)\<close>: calling what is not a function throws a TypeError; calling a function
  is recorded and then does what the function does. (\<open>JRegisters\<close> does what
  \<^verbatim>\<open>addListener\<close> does, \<^verbatim>\<open>callbacks.push(v)\<close>. What a function of the engine
  does when called is not modelled: the run ends there with \<open>Not_modelled\<close>.)
\<close>

fun call :: "jsval \<Rightarrow> jsval list \<Rightarrow> model \<Rightarrow> run" where
  "call (JFun n) args m = returns [Call (JFun n) args] m"
| "call (JThrows n) args m = throws Exception [Call (JThrows n) args] m"
| "call (JRegisters n v) args m =
     returns [Call (JRegisters n v) args] (m\<lparr>callbacks := callbacks m @ [v]\<rparr>)"
| "call (JNative name) args m = throws Not_modelled [Call (JNative name) args] m"
| "call v args m = throws TypeError [] m"

text \<open>A function that returns when called and leaves the object alone.\<close>

fun quiet :: "jsval \<Rightarrow> bool" where
  "quiet (JFun n) = True"
| "quiet v = False"

text \<open>The first actual parameter of a call, \<^verbatim>\<open>undefined\<close> when there is none.\<close>

fun arg0 :: "jsval list \<Rightarrow> jsval" where
  "arg0 [] = JUndefined"
| "arg0 (v # vs) = v"

subsection \<open>Listeners\<close>

definition addListener :: "jsval \<Rightarrow> model \<Rightarrow> run" where
  "addListener callback m = returns [] (m\<lparr>callbacks := callbacks m @ [callback]\<rparr>)"

text \<open>
  The loop of \<^verbatim>\<open>updateListeners\<close>, from index \<open>i\<close> on, with \<open>sofar\<close> what the
  earlier turns did. Every turn reads \<^verbatim>\<open>callbacks\<close> anew, so a listener registered
  by a listener is served in the same pass; an exception of a listener ends the pass.
  (The lists shrink to the right of \<open>i\<close>: a \<open>JRegisters\<close> adds a value smaller than
  itself.)
\<close>

function updateListeners_loop :: "nat \<Rightarrow> event list \<Rightarrow> model \<Rightarrow> run" where
  "updateListeners_loop i sofar m =
     (if i < length (callbacks m)
      then (if typeof (callbacks m ! i) = ''function''
            then (case thrown (call (callbacks m ! i) [] m) of
                    Some e \<Rightarrow>
                      throws e (sofar @ effects (call (callbacks m ! i) [] m))
                        (after (call (callbacks m ! i) [] m))
                  | None \<Rightarrow>
                      updateListeners_loop (i + 1)
                        (sofar @ effects (call (callbacks m ! i) [] m))
                        (after (call (callbacks m ! i) [] m)))
            else updateListeners_loop (i + 1)
                   (sofar @ [Debug_error
                      ''Model: listener did not provide a valid callback function!''])
                   m)
      else returns sofar m)"
  by pat_completeness auto
termination
proof (relation "measure (\<lambda>(i, sofar, m). sum_list (map (\<lambda>v. Suc (size v)) (drop i (callbacks m))))")
  show "wf (measure (\<lambda>(i, sofar, m). sum_list (map (\<lambda>v. Suc (size v)) (drop i (callbacks m)))))"
    by simp
next
  fix i :: nat and sofar :: "event list" and m :: model
  assume i: "i < length (callbacks m)"
    and f: "typeof (callbacks m ! i) = ''function''"
    and t: "thrown (call (callbacks m ! i) [] m) = None"
  from i have d: "drop i (callbacks m) = callbacks m ! i # drop (Suc i) (callbacks m)"
    by (simp add: Cons_nth_drop_Suc)
  from i f t d
  show "((i + 1, sofar @ effects (call (callbacks m ! i) [] m),
          after (call (callbacks m ! i) [] m)), i, sofar, m)
        \<in> measure (\<lambda>(i, sofar, m). sum_list (map (\<lambda>v. Suc (size v)) (drop i (callbacks m))))"
    by (cases "callbacks m ! i") (simp_all add: returns_def throws_def)
next
  fix i :: nat and sofar :: "event list" and m :: model
  assume i: "i < length (callbacks m)"
  then have d: "drop i (callbacks m) = callbacks m ! i # drop (Suc i) (callbacks m)"
    by (simp add: Cons_nth_drop_Suc)
  then show "((i + 1, sofar @ [Debug_error
                ''Model: listener did not provide a valid callback function!''], m), i, sofar, m)
        \<in> measure (\<lambda>(i, sofar, m). sum_list (map (\<lambda>v. Suc (size v)) (drop i (callbacks m))))"
    by simp
qed

declare updateListeners_loop.simps [simp del]

definition updateListeners :: "model \<Rightarrow> run" where
  "updateListeners m =
     updateListeners_loop 0 [Debug_info ''Model: updating listeners:''] m"

subsection \<open>Reading\<close>

definition getTypes :: "jsval \<Rightarrow> jsval \<Rightarrow> model \<Rightarrow> run" where
  "getTypes callback errorHandler m =
     (if typeof callback \<noteq> ''function'' then returns [] m
      else returns
        [Ajax \<lparr>url = ''types'', http_type = None, dataType = Some ''xml'', data = Some [],
               success = Some (H_getTypes callback), error = Some errorHandler\<rparr>] m)"

definition getJSON :: "jsval \<Rightarrow> jsval \<Rightarrow> model \<Rightarrow> run" where
  "getJSON callback errorHandler m =
     (if typeof callback \<noteq> ''function'' then returns [] m
      else if \<not> eq_null (modelJSON m) then call callback [modelJSON m] m
      else returns
        [Ajax \<lparr>url = ''model.json'', http_type = None, dataType = Some ''json'',
               data = Some [], success = Some (H_getJSON callback),
               error = Some errorHandler\<rparr>] m)"

text \<open>The loop of \<^verbatim>\<open>getObject\<close>, from index \<open>i\<close> on, with \<open>obj\<close> the node reached.\<close>

function getObject_loop ::
  "(jsval \<Rightarrow> string \<Rightarrow> jsval option) \<Rightarrow> string list \<Rightarrow> nat \<Rightarrow> nat \<Rightarrow> jsval \<Rightarrow> error + jsval"
where
  "getObject_loop builtin tokens len i obj =
     (if i < len
      then (case get_prop builtin obj (tokens ! i) of
              Inl e \<Rightarrow> Inl e
            | Inr v \<Rightarrow>
                if typeof v \<noteq> ''undefined''
                then getObject_loop builtin tokens len (i + 1) v
                else (case get_prop builtin obj ''py/state'' of
                        Inl e \<Rightarrow> Inl e
                      | Inr st \<Rightarrow>
                          (case get_prop builtin st (tokens ! i) of
                             Inl e \<Rightarrow> Inl e
                           | Inr w \<Rightarrow> getObject_loop builtin tokens len (i + 1) w)))
      else Inr obj)"
  by pat_completeness auto
termination
  by (relation "measure (\<lambda>(builtin, tokens, len, i, obj). len - i)") auto

declare getObject_loop.simps [simp del]

text \<open>
  \<^verbatim>\<open>getObject\<close>, in an engine whose built-in members are \<open>builtin\<close> (see
  \<open>get_prop\<close>).
\<close>

definition getObject ::
  "(jsval \<Rightarrow> string \<Rightarrow> jsval option) \<Rightarrow> string \<Rightarrow> jsval \<Rightarrow> jsval \<Rightarrow> model \<Rightarrow> run"
where
  "getObject builtin pathname callback errorHandler m =
     (if typeof callback \<noteq> ''function'' then returns [] m
      else and_then
        (if eq_null (modelJSON m) then getJSON JUndefined JUndefined m else returns [] m)
        (\<lambda>m1.
           let obj = modelJSON m1
           in if length pathname > 0
              then (let tokens = split CHR ''.'' pathname;
                        len = length tokens
                    in case getObject_loop builtin tokens len 0 obj of
                         Inl e \<Rightarrow> throws e [] m1
                       | Inr obj' \<Rightarrow> call callback [obj'] m1)
              else call callback [obj] m1))"

definition getOutput :: "jsval \<Rightarrow> jsval \<Rightarrow> model \<Rightarrow> run" where
  "getOutput callback errorHandler m =
     returns
       [Ajax \<lparr>url = ''output'', http_type = None, dataType = None, data = None,
              success = Some (H_getOutput callback), error = Some errorHandler\<rparr>] m"

definition getFolder :: "model \<Rightarrow> run" where
  "getFolder m =
     returns
       [Ajax \<lparr>url = ''folder'', http_type = None, dataType = None, data = None,
              success = Some H_getFolder, error = None\<rparr>] m"

definition getFiles :: "jsval \<Rightarrow> jsval \<Rightarrow> model \<Rightarrow> run" where
  "getFiles callback errorHandler m =
     (if typeof callback \<noteq> ''function'' then returns [] m
      else returns
        [Ajax \<lparr>url = ''files.json'', http_type = None, dataType = Some ''json'',
               data = Some [], success = Some (H_callback callback),
               error = Some errorHandler\<rparr>] m)"

definition getFile :: "jsval \<Rightarrow> jsval \<Rightarrow> jsval \<Rightarrow> model \<Rightarrow> run" where
  "getFile filepath callback errorHandler m =
     (if typeof callback \<noteq> ''function'' then returns [] m
      else returns
        [Ajax \<lparr>url = ''file'', http_type = Some ''GET'', dataType = Some ''text'',
               data = Some [(''file'', filepath)], success = Some (H_callback callback),
               error = Some errorHandler\<rparr>] m)"

subsection \<open>Changing the model and the files\<close>

definition addComponent :: "jsval \<Rightarrow> jsval \<Rightarrow> jsval \<Rightarrow> jsval \<Rightarrow> model \<Rightarrow> run" where
  "addComponent typepath name x y m =
     (let m1 = m\<lparr>modelJSON := JNull\<rparr>;
          x1 = (if typeof x \<noteq> ''number'' then JNum 1 else x);
          y1 = (if typeof y \<noteq> ''number'' then JNum 1 else y)
      in returns
           [Ajax \<lparr>url = ''add'', http_type = Some ''POST'', dataType = None,
                  data = Some [(''type'', typepath), (''name'', name), (''x'', x1), (''y'', y1)],
                  success = Some H_updateListeners, error = None\<rparr>] m1)"

definition issueCommand :: "jsval \<Rightarrow> jsval \<Rightarrow> jsval \<Rightarrow> model \<Rightarrow> run" where
  "issueCommand cmd callback errorHandler m =
     (let m1 = m\<lparr>modelJSON := JNull\<rparr>
      in returns
           [Ajax \<lparr>url = ''command'', http_type = Some ''POST'', dataType = None,
                  data = Some [(''command'', cmd)],
                  success = Some (H_issueCommand callback), error = Some errorHandler\<rparr>] m1)"

definition setFolder :: "jsval \<Rightarrow> model \<Rightarrow> run" where
  "setFolder folder m =
     returns
       [Ajax \<lparr>url = ''folder'', http_type = Some ''POST'', dataType = None,
              data = Some [(''folder'', folder)],
              success = Some H_updateListeners, error = None\<rparr>] m"

definition setFile :: "jsval \<Rightarrow> jsval \<Rightarrow> jsval \<Rightarrow> model \<Rightarrow> run" where
  "setFile filepath contents errorHandler m =
     returns
       [Ajax \<lparr>url = ''file'', http_type = Some ''POST'', dataType = None,
              data = Some [(''filename'', filepath), (''contents'', contents)],
              success = Some H_updateListeners, error = Some errorHandler\<rparr>] m"

definition createFolder :: "jsval \<Rightarrow> model \<Rightarrow> run" where
  "createFolder folderpath m =
     returns
       [Ajax \<lparr>url = ''file'', http_type = Some ''POST'', dataType = None,
              data = Some [(''filename'', folderpath), (''isFolder'', JBool True)],
              success = Some H_updateListeners, error = None\<rparr>] m"

definition removeFile :: "jsval \<Rightarrow> model \<Rightarrow> run" where
  "removeFile filepath m =
     returns
       [Ajax \<lparr>url = ''remove'', http_type = Some ''POST'', dataType = Some ''text'',
              data = Some [(''file'', filepath)],
              success = Some H_updateListeners, error = None\<rparr>] m"

text \<open>
  The last statement of \<^verbatim>\<open>importFile\<close>, \<^verbatim>\<open>that.updateListeners\<close>, reads the
  function and does not call it. \<^verbatim>\<open>issueCommand\<close> is called with the command only.
\<close>

definition importFile :: "string \<Rightarrow> model \<Rightarrow> run" where
  "importFile filepath m =
     (let path = replace_char CHR ''/'' ''.''
                   (replace_char (CHR 0x5C) ''.'' (replace_dot_py filepath))
      in issueCommand (JStr (''from '' @ path @ '' import *'')) JUndefined JUndefined m)"

definition execFile :: "string \<Rightarrow> model \<Rightarrow> run" where
  "execFile filepath m =
     (let m1 = m\<lparr>modelJSON := JNull\<rparr>;
          path = replace_char (CHR 0x5C) ''/'' filepath;
          path1 = (if path \<noteq> [] \<and> hd path = CHR ''/'' then substring1 path else path)
      in returns
           [Ajax \<lparr>url = ''exec'', http_type = Some ''POST'', dataType = None,
                  data = Some [(''filename'', JStr path1)],
                  success = Some H_updateListeners, error = None\<rparr>] m1)"

definition exit :: "model \<Rightarrow> run" where
  "exit m =
     returns
       [Ajax \<lparr>url = ''exit'', http_type = Some ''GET'', dataType = None, data = None,
              success = None, error = None\<rparr>] m"

subsection \<open>The answer of the server\<close>

text \<open>
  \<^verbatim>\<open>jQuery.ajax\<close> calls the \<^verbatim>\<open>success\<close> function of a request that succeeded
  with the parameters \<open>args\<close> (the data of the response first).
\<close>

fun ajax_success :: "handler \<Rightarrow> jsval list \<Rightarrow> model \<Rightarrow> run" where
  "ajax_success H_updateListeners args m = updateListeners m"
| "ajax_success (H_getTypes callback) args m =
     (let m1 = m\<lparr>types := JQuery ''Types'' (arg0 args)\<rparr>
      in call callback [types m1] m1)"
| "ajax_success (H_getJSON callback) args m =
     (let m1 = m\<lparr>modelJSON := arg0 args\<rparr>
      in call callback [modelJSON m1] m1)"
| "ajax_success (H_issueCommand callback) args m =
     and_then
       (if typeof callback = ''function'' then call callback [arg0 args] m else returns [] m)
       updateListeners"
| "ajax_success (H_getOutput callback) args m =
     (if typeof callback = ''function'' then call callback [arg0 args] m else returns [] m)"
| "ajax_success H_getFolder args m = returns [] m"
| "ajax_success (H_callback callback) args m = call callback args m"

subsection \<open>Observing a run, and the words of the specification\<close>

text \<open>Registering the listeners \<open>cbs\<close> one after the other.\<close>

fun register :: "jsval list \<Rightarrow> model \<Rightarrow> model" where
  "register [] m = m"
| "register (cb # cbs) m = register cbs (after (addListener cb m))"


text \<open>The requests among the effects, in order.\<close>

fun requests :: "event list \<Rightarrow> request list" where
  "requests [] = []"
| "requests (Ajax r # es) = r # requests es"
| "requests (e # es) = requests es"

text \<open>
  The walk of \<^verbatim>\<open>getObject\<close> as the specification words it: segment by segment, and
  at each segment under the sub-key \<open>fallback\<close> of the node when reading the segment
  from the node itself gives \<^verbatim>\<open>undefined\<close>.
\<close>

fun resolve_path ::
  "(jsval \<Rightarrow> string \<Rightarrow> jsval option) \<Rightarrow> string \<Rightarrow> string list \<Rightarrow> jsval \<Rightarrow> error + jsval"
where
  "resolve_path builtin fallback [] node = Inr node"
| "resolve_path builtin fallback (seg # segs) node =
     (case get_prop builtin node seg of
        Inl e \<Rightarrow> Inl e
      | Inr v \<Rightarrow>
          if v \<noteq> JUndefined then resolve_path builtin fallback segs v
          else (case get_prop builtin node fallback of
                  Inl e \<Rightarrow> Inl e
                | Inr sub \<Rightarrow>
                    (case get_prop builtin sub seg of
                       Inl e \<Rightarrow> Inl e
                     | Inr w \<Rightarrow> resolve_path builtin fallback segs w)))"

text \<open>
  The path of \<^verbatim>\<open>execFile\<close> as the specification words it: backslashes become
  slashes, then one leading slash is dropped.
\<close>

definition relative_path :: "string \<Rightarrow> string" where
  "relative_path p =
     (case map (\<lambda>c. if c = CHR 0x5C then CHR ''/'' else c) p of
        [] \<Rightarrow> []
      | c # cs \<Rightarrow> if c = CHR ''/'' then cs else c # cs)"

section \<open>Properties\<close>

subsection \<open>Auxiliary facts\<close>

lemma typeof_undefined: "typeof v = ''undefined'' \<longleftrightarrow> v = JUndefined"
  by (cases v) auto


lemma quiet_function: "quiet f \<Longrightarrow> typeof f = ''function''"
  by (cases f) simp_all



lemma getObject_loop_resolve:
  "i \<le> length tokens \<Longrightarrow>
   getObject_loop builtin tokens (length tokens) i obj =
     resolve_path builtin ''py/state'' (drop i tokens) obj"
proof (induction builtin tokens "length tokens" i obj rule: getObject_loop.induct)
  case (1 builtin tokens i obj)
  show ?case
  proof (cases "i < length tokens")
    case True
    then have d: "drop i tokens = tokens ! i # drop (Suc i) tokens"
      by (simp add: Cons_nth_drop_Suc)
    from True have le: "Suc i \<le> length tokens" by simp
    show ?thesis
      using True le 1
      by (subst getObject_loop.simps)
         (auto simp: d typeof_undefined split: sum.splits)
  next
    case False
    with 1 show ?thesis
      by (subst getObject_loop.simps) simp
  qed
qed


lemma split_not_Nil: "split sep s \<noteq> []"
  by (induction s) (auto split: list.splits)



subsection \<open>Notification of the listeners\<close>




text \<open>
  A listener that registers a listener lengthens the pass: the function it registers is
  called in the same pass.
\<close>

lemma registering_listener_lengthens_notification:
  "updateListeners (register [JRegisters 1 (JFun 2)] Model) =
     returns [Debug_info ''Model: updating listeners:'', Call (JRegisters 1 (JFun 2)) [],
              Call (JFun 2) []]
       \<lparr>callbacks = [JRegisters 1 (JFun 2), JFun 2], modelJSON = JNull, types = JNull\<rparr>"
  by (simp add: updateListeners_def updateListeners_loop.simps addListener_def returns_def
        throws_def Model_def)

subsection \<open>Reading without a callback\<close>

text \<open>
  C9. Called with a callback that is not a function, each of \<^verbatim>\<open>getTypes\<close>,
  \<^verbatim>\<open>getJSON\<close>, \<^verbatim>\<open>getObject\<close>, \<^verbatim>\<open>getFiles\<close> and \<^verbatim>\<open>getFile\<close>
  returns at once: no request is issued, nothing is called or logged, and the listeners
  and both caches are as before.
\<close>

theorem reads_without_callback_do_nothing:
  assumes "typeof callback \<noteq> ''function''"
  shows "getTypes callback errorHandler m = returns [] m \<and>
         getJSON callback errorHandler m = returns [] m \<and>
         getObject builtin pathname callback errorHandler m = returns [] m \<and>
         getFiles callback errorHandler m = returns [] m \<and>
         getFile filepath callback errorHandler m = returns [] m"
  using assms
  by (simp add: getTypes_def getJSON_def getObject_def getFiles_def getFile_def)

theorem reads_without_callback_do_nothing_witness:
  "typeof JUndefined \<noteq> ''function'' \<and>
   getTypes JUndefined JUndefined Model = returns [] Model \<and>
   getJSON JUndefined JUndefined Model = returns [] Model \<and>
   getObject object_prototype ''a.b'' JUndefined JUndefined Model = returns [] Model \<and>
   getFiles JUndefined JUndefined Model = returns [] Model \<and>
   getFile (JStr ''a.py'') JUndefined JUndefined Model = returns [] Model"
proof -
  have h: "typeof JUndefined \<noteq> ''function''" by simp
  from reads_without_callback_do_nothing
         [OF h, of JUndefined Model object_prototype "''a.b''" "JStr ''a.py''"] h
  show ?thesis by blast
qed

subsection \<open>The type catalog\<close>

text \<open>
  C2 (what the code does). On a new model, \<^verbatim>\<open>getTypes\<close> issues a request for
  \<^verbatim>\<open>types\<close>; its answer stores the catalog in the variable \<^verbatim>\<open>types\<close> and hands
  it to the callback; a second \<^verbatim>\<open>getTypes\<close> then issues the same request again and
  calls nothing back, since \<^verbatim>\<open>getTypes\<close> never reads the variable.
\<close>

theorem getTypes_requests_again_after_caching:
  "effects (getTypes (JFun 0) JUndefined Model) =
     [Ajax \<lparr>url = ''types'', http_type = None, dataType = Some ''xml'', data = Some [],
            success = Some (H_getTypes (JFun 0)), error = Some JUndefined\<rparr>] \<and>
   ajax_success (H_getTypes (JFun 0)) [JXml ''<Types/>''] (after (getTypes (JFun 0) JUndefined Model)) =
     returns [Call (JFun 0) [JQuery ''Types'' (JXml ''<Types/>'')]]
       \<lparr>callbacks = [], modelJSON = JNull, types = JQuery ''Types'' (JXml ''<Types/>'')\<rparr> \<and>
   getTypes (JFun 0) JUndefined
       \<lparr>callbacks = [], modelJSON = JNull, types = JQuery ''Types'' (JXml ''<Types/>'')\<rparr> =
     returns
       [Ajax \<lparr>url = ''types'', http_type = None, dataType = Some ''xml'', data = Some [],
              success = Some (H_getTypes (JFun 0)), error = Some JUndefined\<rparr>]
       \<lparr>callbacks = [], modelJSON = JNull, types = JQuery ''Types'' (JXml ''<Types/>'')\<rparr>"
  by (simp add: getTypes_def returns_def Model_def)

subsection \<open>Which operations clear the model cache\<close>

lemma getJSON_uncached:
  "typeof callback = ''function'' \<Longrightarrow> modelJSON m = JNull \<Longrightarrow>
   getJSON callback errorHandler m =
     returns
       [Ajax \<lparr>url = ''model.json'', http_type = None, dataType = Some ''json'',
              data = Some [], success = Some (H_getJSON callback),
              error = Some errorHandler\<rparr>] m"
  by (simp add: getJSON_def)

text \<open>
  C1 (as the code has it). \<^verbatim>\<open>addComponent\<close>, \<^verbatim>\<open>issueCommand\<close> and
  \<^verbatim>\<open>execFile\<close> set the model cache to \<^verbatim>\<open>null\<close> before they issue their one
  request, so that a
  \<^verbatim>\<open>getJSON\<close> with a callable callback right after any of them calls nothing back
  and issues a new request for \<^verbatim>\<open>model.json\<close>. The operations on files and folders,
  \<^verbatim>\<open>setFile\<close>, \<^verbatim>\<open>removeFile\<close>, \<^verbatim>\<open>createFolder\<close> and \<^verbatim>\<open>setFolder\<close>,
  issue their one request and leave the variables, the model cache among them, as they
  were.
\<close>

theorem model_changes_clear_cache_file_changes_keep_it:
  assumes "typeof callback = ''function''"
  shows "(\<forall>r \<in> {addComponent typepath name x y m, issueCommand cmd cb eh m,
                execFile path m}.
            thrown r = None \<and> length (requests (effects r)) = 1 \<and>
            modelJSON (after r) = JNull \<and>
            getJSON callback errorHandler (after r) =
              returns
                [Ajax \<lparr>url = ''model.json'', http_type = None, dataType = Some ''json'',
                       data = Some [], success = Some (H_getJSON callback),
                       error = Some errorHandler\<rparr>] (after r)) \<and>
         (\<forall>r \<in> {setFile fpath contents eh m, removeFile fpath m,
                createFolder fpath m, setFolder fpath m}.
            thrown r = None \<and> length (requests (effects r)) = 1 \<and> after r = m)"
proof -
  have a: "modelJSON (after (addComponent typepath name x y m)) = JNull"
    and i: "modelJSON (after (issueCommand cmd cb eh m)) = JNull"
    and e: "modelJSON (after (execFile path m)) = JNull"
    by (simp_all add: addComponent_def issueCommand_def execFile_def Let_def returns_def)
  have t: "thrown (addComponent typepath name x y m) = None"
      "thrown (issueCommand cmd cb eh m) = None"
      "thrown (execFile path m) = None"
      "length (requests (effects (addComponent typepath name x y m))) = 1"
      "length (requests (effects (issueCommand cmd cb eh m))) = 1"
      "length (requests (effects (execFile path m))) = 1"
    by (simp_all add: addComponent_def issueCommand_def execFile_def Let_def returns_def)
  have f: "thrown (setFile fpath contents eh m) = None"
      "thrown (removeFile fpath m) = None"
      "thrown (createFolder fpath m) = None"
      "thrown (setFolder fpath m) = None"
      "length (requests (effects (setFile fpath contents eh m))) = 1"
      "length (requests (effects (removeFile fpath m))) = 1"
      "length (requests (effects (createFolder fpath m))) = 1"
      "length (requests (effects (setFolder fpath m))) = 1"
      "after (setFile fpath contents eh m) = m"
      "after (removeFile fpath m) = m"
      "after (createFolder fpath m) = m"
      "after (setFolder fpath m) = m"
    by (simp_all add: setFile_def removeFile_def createFolder_def setFolder_def returns_def)
  show ?thesis
    using getJSON_uncached [OF assms a] getJSON_uncached [OF assms i]
          getJSON_uncached [OF assms e] a i e t f
    by simp
qed

theorem model_changes_clear_cache_file_changes_keep_it_witness:
  "typeof (JFun 0) = ''function'' \<and>
   effects (getJSON (JFun 0) JUndefined
     (after (addComponent (JStr ''Box'') (JStr ''b1'') (JNum 2) (JNum 3)
        \<lparr>callbacks = [], modelJSON = JObj [(''top'', JObj [])], types = JNull\<rparr>))) =
     [Ajax \<lparr>url = ''model.json'', http_type = None, dataType = Some ''json'',
            data = Some [], success = Some (H_getJSON (JFun 0)),
            error = Some JUndefined\<rparr>] \<and>
   after (setFolder (JStr ''work'')
        \<lparr>callbacks = [], modelJSON = JObj [(''top'', JObj [])], types = JNull\<rparr>) =
     \<lparr>callbacks = [], modelJSON = JObj [(''top'', JObj [])], types = JNull\<rparr>"
proof -
  have h: "typeof (JFun 0) = ''function''" by simp
  note c = model_changes_clear_cache_file_changes_keep_it
         [OF h, where typepath = "JStr ''Box''" and name = "JStr ''b1''" and x = "JNum 2"
            and y = "JNum 3" and errorHandler = JUndefined and fpath = "JStr ''work''"
            and m = "\<lparr>callbacks = [], modelJSON = JObj [(''top'', JObj [])], types = JNull\<rparr>"]
  from c have "getJSON (JFun 0) JUndefined
     (after (addComponent (JStr ''Box'') (JStr ''b1'') (JNum 2) (JNum 3)
        \<lparr>callbacks = [], modelJSON = JObj [(''top'', JObj [])], types = JNull\<rparr>)) =
     returns
       [Ajax \<lparr>url = ''model.json'', http_type = None, dataType = Some ''json'',
              data = Some [], success = Some (H_getJSON (JFun 0)),
              error = Some JUndefined\<rparr>]
       (after (addComponent (JStr ''Box'') (JStr ''b1'') (JNum 2) (JNum 3)
        \<lparr>callbacks = [], modelJSON = JObj [(''top'', JObj [])], types = JNull\<rparr>))"
    by blast
  moreover from c have "after (setFolder (JStr ''work'')
        \<lparr>callbacks = [], modelJSON = JObj [(''top'', JObj [])], types = JNull\<rparr>) =
     \<lparr>callbacks = [], modelJSON = JObj [(''top'', JObj [])], types = JNull\<rparr>"
    by blast
  ultimately show ?thesis using h by (simp add: returns_def)
qed

text \<open>
  Once a snapshot has been fetched and cached, a \<^verbatim>\<open>getJSON\<close> that follows
  \<^verbatim>\<open>setFile\<close>, \<^verbatim>\<open>removeFile\<close>, \<^verbatim>\<open>createFolder\<close> or \<^verbatim>\<open>setFolder\<close>
  hands the cached snapshot to its callback and issues no request.
\<close>

theorem file_changes_keep_cache_counterexample:
  "after (ajax_success (H_getJSON (JFun 0)) [JObj [(''top'', JObj [])]]
            (after (getJSON (JFun 0) JUndefined Model))) =
     \<lparr>callbacks = [], modelJSON = JObj [(''top'', JObj [])], types = JNull\<rparr> \<and>
   effects (getJSON (JFun 0) JUndefined
     (after (setFile (JStr ''a.py'') (JStr ''pass'') JUndefined
        \<lparr>callbacks = [], modelJSON = JObj [(''top'', JObj [])], types = JNull\<rparr>))) =
     [Call (JFun 0) [JObj [(''top'', JObj [])]]] \<and>
   effects (getJSON (JFun 0) JUndefined
     (after (removeFile (JStr ''a.py'')
        \<lparr>callbacks = [], modelJSON = JObj [(''top'', JObj [])], types = JNull\<rparr>))) =
     [Call (JFun 0) [JObj [(''top'', JObj [])]]] \<and>
   effects (getJSON (JFun 0) JUndefined
     (after (createFolder (JStr ''sub'')
        \<lparr>callbacks = [], modelJSON = JObj [(''top'', JObj [])], types = JNull\<rparr>))) =
     [Call (JFun 0) [JObj [(''top'', JObj [])]]] \<and>
   effects (getJSON (JFun 0) JUndefined
     (after (setFolder (JStr ''work'')
        \<lparr>callbacks = [], modelJSON = JObj [(''top'', JObj [])], types = JNull\<rparr>))) =
     [Call (JFun 0) [JObj [(''top'', JObj [])]]]"
  by (simp add: getJSON_def setFile_def removeFile_def createFolder_def setFolder_def
        returns_def Model_def)

subsection \<open>Looking up an object\<close>

lemma getObject_cached:
  assumes "typeof callback = ''function''" and "\<not> eq_null (modelJSON m)"
  shows "getObject builtin pathname callback errorHandler m =
           (case resolve_path builtin ''py/state''
                   (if pathname = [] then [] else split CHR ''.'' pathname) (modelJSON m) of
              Inl e \<Rightarrow> throws e [] m
            | Inr v \<Rightarrow> call callback [v] m)"
proof -
  have r: "and_then (returns [] m) k = k m" for k
    by (cases "k m") (simp add: and_then_def returns_def)
  show ?thesis
    using assms getObject_loop_resolve [of 0 "split CHR ''.'' pathname" builtin "modelJSON m"]
    by (simp add: getObject_def r Let_def split: sum.splits)
qed

text \<open>
  C4 (as the code has it). With a callable callback and a snapshot in the cache,
  \<^verbatim>\<open>getObject\<close> walks the segments of the dotted path through the snapshot. At each
  segment it reads the property of that name from the node (the node's own, or else the
  one the node inherits from the built-in prototypes) and, when that read gives
  \<^verbatim>\<open>undefined\<close>, reads the segment under the sub-key \<^verbatim>\<open>py/state\<close> of the node
  instead. The value reached is handed to the callback, or the TypeError of the walk is
  thrown. In particular \<^verbatim>\<open>getObject("a.b.c")\<close> hands 42 to its callback on the
  snapshot \<^verbatim>\<open>{a:{b:{c:42}}}\<close> and, as long as objects inherit no member named
  \<^verbatim>\<open>b\<close>, on the snapshot \<^verbatim>\<open>{a:{"py/state":{b:{c:42}}}}\<close>.
\<close>

theorem getObject_walks_with_py_state_fallback:
  assumes "typeof callback = ''function''"
  shows "(\<not> eq_null (modelJSON m) \<longrightarrow>
            getObject builtin pathname callback errorHandler m =
              (case resolve_path builtin ''py/state''
                      (if pathname = [] then [] else split CHR ''.'' pathname) (modelJSON m) of
                 Inl e \<Rightarrow> throws e [] m
               | Inr v \<Rightarrow> call callback [v] m)) \<and>
         (modelJSON m = JObj [(''a'', JObj [(''b'', JObj [(''c'', JNum 42)])])] \<longrightarrow>
            getObject builtin ''a.b.c'' callback errorHandler m = call callback [JNum 42] m) \<and>
         (modelJSON m = JObj [(''a'', JObj [(''py/state'', JObj [(''b'', JObj [(''c'', JNum 42)])])])] \<and>
          builtin (JObj [(''py/state'', JObj [(''b'', JObj [(''c'', JNum 42)])])]) ''b'' = None \<longrightarrow>
            getObject builtin ''a.b.c'' callback errorHandler m = call callback [JNum 42] m)"
proof (intro conjI impI)
  assume "\<not> eq_null (modelJSON m)"
  with assms show "getObject builtin pathname callback errorHandler m =
              (case resolve_path builtin ''py/state''
                      (if pathname = [] then [] else split CHR ''.'' pathname) (modelJSON m) of
                 Inl e \<Rightarrow> throws e [] m
               | Inr v \<Rightarrow> call callback [v] m)"
    by (rule getObject_cached)
next
  assume s: "modelJSON m = JObj [(''a'', JObj [(''b'', JObj [(''c'', JNum 42)])])]"
  then have "\<not> eq_null (modelJSON m)" by simp
  from getObject_cached [OF assms this, of builtin "''a.b.c''" errorHandler]
  show "getObject builtin ''a.b.c'' callback errorHandler m = call callback [JNum 42] m"
    by (simp add: s get_prop_def)
next
  assume "modelJSON m = JObj [(''a'', JObj [(''py/state'', JObj [(''b'', JObj [(''c'', JNum 42)])])])] \<and>
          builtin (JObj [(''py/state'', JObj [(''b'', JObj [(''c'', JNum 42)])])]) ''b'' = None"
  then have s: "modelJSON m = JObj [(''a'', JObj [(''py/state'', JObj [(''b'', JObj [(''c'', JNum 42)])])])]"
    and b: "builtin (JObj [(''py/state'', JObj [(''b'', JObj [(''c'', JNum 42)])])]) ''b'' = None"
    by simp_all
  from s have "\<not> eq_null (modelJSON m)" by simp
  from getObject_cached [OF assms this, of builtin "''a.b.c''" errorHandler]
  show "getObject builtin ''a.b.c'' callback errorHandler m = call callback [JNum 42] m"
    by (simp add: s b get_prop_def)
qed

theorem getObject_walks_with_py_state_fallback_witness:
  "typeof (JFun 0) = ''function'' \<and>
   object_prototype (JObj [(''py/state'', JObj [(''b'', JObj [(''c'', JNum 42)])])]) ''b'' = None \<and>
   getObject object_prototype ''a.b.c'' (JFun 0) JUndefined
     \<lparr>callbacks = [],
        modelJSON = JObj [(''a'', JObj [(''b'', JObj [(''c'', JNum 42)])])],
        types = JNull\<rparr> =
     returns [Call (JFun 0) [JNum 42]]
       \<lparr>callbacks = [],
        modelJSON = JObj [(''a'', JObj [(''b'', JObj [(''c'', JNum 42)])])],
        types = JNull\<rparr> \<and>
   getObject object_prototype ''a.b.c'' (JFun 0) JUndefined
     \<lparr>callbacks = [],
        modelJSON = JObj [(''a'', JObj [(''py/state'', JObj [(''b'', JObj [(''c'', JNum 42)])])])],
        types = JNull\<rparr> =
     returns [Call (JFun 0) [JNum 42]]
       \<lparr>callbacks = [],
        modelJSON = JObj [(''a'', JObj [(''py/state'', JObj [(''b'', JObj [(''c'', JNum 42)])])])],
        types = JNull\<rparr> \<and>
   effects (getObject object_prototype ''a.constructor'' (JFun 0) JUndefined
     \<lparr>callbacks = [],
      modelJSON = JObj [(''a'', JObj [(''py/state'', JObj [(''constructor'', JNum 5)])])],
      types = JNull\<rparr>) = [Call (JFun 0) [JNative ''constructor'']] \<and>
   effects (getObject object_prototype ''a.toString'' (JFun 0) JUndefined
     \<lparr>callbacks = [], modelJSON = JObj [(''a'', JObj [(''b'', JNum 1)])],
      types = JNull\<rparr>) = [Call (JFun 0) [JNative ''toString'']] \<and>
   effects (getObject object_prototype ''a.0'' (JFun 0) JUndefined
     \<lparr>callbacks = [], modelJSON = JObj [(''a'', JArr [JStr ''x'', JStr ''y''])],
      types = JNull\<rparr>) = [Call (JFun 0) [JStr ''x'']]"
proof -
  have h: "typeof (JFun 0) = ''function''" by simp
  have b: "object_prototype (JObj [(''py/state'', JObj [(''b'', JObj [(''c'', JNum 42)])])]) ''b'' = None"
    by (simp add: object_prototype_def)
  note w = getObject_walks_with_py_state_fallback
             [OF h, where errorHandler = JUndefined and builtin = object_prototype]
  from w [where m = "\<lparr>callbacks = [],
        modelJSON = JObj [(''a'', JObj [(''b'', JObj [(''c'', JNum 42)])])],
        types = JNull\<rparr>", THEN conjunct2, THEN conjunct1]
  have 1: "getObject object_prototype ''a.b.c'' (JFun 0) JUndefined
     \<lparr>callbacks = [],
        modelJSON = JObj [(''a'', JObj [(''b'', JObj [(''c'', JNum 42)])])],
        types = JNull\<rparr> =
     returns [Call (JFun 0) [JNum 42]]
       \<lparr>callbacks = [],
        modelJSON = JObj [(''a'', JObj [(''b'', JObj [(''c'', JNum 42)])])],
        types = JNull\<rparr>"
    by simp
  from b w [where m = "\<lparr>callbacks = [],
        modelJSON = JObj [(''a'', JObj [(''py/state'', JObj [(''b'', JObj [(''c'', JNum 42)])])])],
        types = JNull\<rparr>", THEN conjunct2, THEN conjunct2]
  have 2: "getObject object_prototype ''a.b.c'' (JFun 0) JUndefined
     \<lparr>callbacks = [],
        modelJSON = JObj [(''a'', JObj [(''py/state'', JObj [(''b'', JObj [(''c'', JNum 42)])])])],
        types = JNull\<rparr> =
     returns [Call (JFun 0) [JNum 42]]
       \<lparr>callbacks = [],
        modelJSON = JObj [(''a'', JObj [(''py/state'', JObj [(''b'', JObj [(''c'', JNum 42)])])])],
        types = JNull\<rparr>"
    by simp
  from w [where m = "\<lparr>callbacks = [],
             modelJSON = JObj [(''a'', JObj [(''py/state'', JObj [(''constructor'', JNum 5)])])],
             types = JNull\<rparr>" and pathname = "''a.constructor''", THEN conjunct1]
  have 3: "effects (getObject object_prototype ''a.constructor'' (JFun 0) JUndefined
     \<lparr>callbacks = [],
      modelJSON = JObj [(''a'', JObj [(''py/state'', JObj [(''constructor'', JNum 5)])])],
      types = JNull\<rparr>) = [Call (JFun 0) [JNative ''constructor'']]"
    by (simp add: returns_def get_prop_def object_prototype_def)
  from w [where m = "\<lparr>callbacks = [], modelJSON = JObj [(''a'', JObj [(''b'', JNum 1)])],
             types = JNull\<rparr>" and pathname = "''a.toString''", THEN conjunct1]
  have 4: "effects (getObject object_prototype ''a.toString'' (JFun 0) JUndefined
     \<lparr>callbacks = [], modelJSON = JObj [(''a'', JObj [(''b'', JNum 1)])],
      types = JNull\<rparr>) = [Call (JFun 0) [JNative ''toString'']]"
    by (simp add: returns_def get_prop_def object_prototype_def)
  from w [where m = "\<lparr>callbacks = [], modelJSON = JObj [(''a'', JArr [JStr ''x'', JStr ''y''])],
             types = JNull\<rparr>" and pathname = "''a.0''", THEN conjunct1]
  have 5: "effects (getObject object_prototype ''a.0'' (JFun 0) JUndefined
     \<lparr>callbacks = [], modelJSON = JObj [(''a'', JArr [JStr ''x'', JStr ''y''])],
      types = JNull\<rparr>) = [Call (JFun 0) [JStr ''x'']]"
    by (simp add: returns_def get_prop_def array_index_def is_digit_def)
  from h b 1 2 3 4 5 show ?thesis by blast
qed

text \<open>
  On the snapshot \<^verbatim>\<open>{a:{"state":{b:{c:42}}}}\<close> the walk of \<^verbatim>\<open>a.b.c\<close> finds no
  \<^verbatim>\<open>b\<close> and no \<^verbatim>\<open>py/state\<close> under \<^verbatim>\<open>a\<close>, and throws a TypeError; the
  callback is not called.
\<close>

theorem getObject_state_fallback_counterexample:
  "getObject object_prototype ''a.b.c'' (JFun 0) JUndefined
     \<lparr>callbacks = [],
      modelJSON = JObj [(''a'', JObj [(''state'', JObj [(''b'', JObj [(''c'', JNum 42)])])])],
      types = JNull\<rparr> =
   throws TypeError []
     \<lparr>callbacks = [],
      modelJSON = JObj [(''a'', JObj [(''state'', JObj [(''b'', JObj [(''c'', JNum 42)])])])],
      types = JNull\<rparr>"
  by (simp add: getObject_def and_then_def returns_def throws_def getObject_loop.simps
        get_prop_def object_prototype_def)

text \<open>
  While the cache is absent, \<^verbatim>\<open>getObject\<close> fetches nothing: the callback gets the
  empty cache for the empty path, and any other path ends in a TypeError.
\<close>

lemma getObject_absent_cache:
  assumes "typeof callback = ''function''" and "eq_null (modelJSON m)"
  shows "getObject builtin pathname callback errorHandler m =
           (if pathname = [] then call callback [modelJSON m] m
            else throws TypeError [] m)"
proof -
  have g: "getJSON JUndefined JUndefined m = returns [] m"
    by (simp add: getJSON_def)
  have r: "and_then (returns [] m) k = k m" for k
    by (cases "k m") (simp add: and_then_def returns_def)
  obtain t ts where t: "split CHR ''.'' pathname = t # ts"
    using split_not_Nil [of "CHR ''.''" pathname] by (cases "split CHR ''.'' pathname") auto
  from assms(2) have n: "get_prop builtin (modelJSON m) t = Inl TypeError"
    by (simp add: get_prop_def)
  have l: "getObject_loop builtin (t # ts) (Suc (length ts)) 0 (modelJSON m) = Inl TypeError"
    by (subst getObject_loop.simps) (simp add: n)
  show ?thesis
    using assms
    by (simp add: getObject_def g r Let_def t l)
qed

text \<open>
  C5 (what the code does). On a new model, whose cache is absent, \<^verbatim>\<open>getObject\<close>
  with a callable callback calls \<^verbatim>\<open>getJSON\<close> without a callback, which returns at
  once: no request is issued and the cache stays \<^verbatim>\<open>null\<close>. For the path
  \<^verbatim>\<open>a\<close> the walk then reads a property of \<^verbatim>\<open>null\<close> and throws a TypeError
  before the callback is called; for the empty path the callback is called with
  \<^verbatim>\<open>null\<close>. This is so in every engine.
\<close>

theorem getObject_without_cache_fetches_nothing:
  "getObject builtin ''a'' (JFun 0) JUndefined Model = throws TypeError [] Model \<and>
   getObject builtin [] (JFun 0) JUndefined Model = returns [Call (JFun 0) [JNull]] Model"
  by (simp add: getObject_def getJSON_def and_then_def returns_def throws_def
        Model_def getObject_loop.simps get_prop_def)

subsection \<open>Adding a component\<close>

text \<open>
  C8. In the creation request of \<^verbatim>\<open>addComponent\<close> each of \<^verbatim>\<open>x\<close> and
  \<^verbatim>\<open>y\<close> is sent as given when its \<^verbatim>\<open>typeof\<close> is \<^verbatim>\<open>number\<close>, and as
  the number 1 otherwise.
\<close>

theorem addComponent_defaults_coordinates:
  "addComponent typepath name x y m =
     returns
       [Ajax \<lparr>url = ''add'', http_type = Some ''POST'', dataType = None,
              data = Some [(''type'', typepath), (''name'', name),
                           (''x'', if typeof x = ''number'' then x else JNum 1),
                           (''y'', if typeof y = ''number'' then y else JNum 1)],
              success = Some H_updateListeners, error = None\<rparr>]
       (m\<lparr>modelJSON := JNull\<rparr>)"
  by (simp add: addComponent_def Let_def)

theorem addComponent_defaults_coordinates_witness:
  "requests (effects (addComponent (JStr ''Box'') (JStr ''b1'') (JStr ''7'') (JNum 7) Model)) =
     [\<lparr>url = ''add'', http_type = Some ''POST'', dataType = None,
       data = Some [(''type'', JStr ''Box''), (''name'', JStr ''b1''),
                    (''x'', JNum 1), (''y'', JNum 7)],
       success = Some H_updateListeners, error = None\<rparr>]"
  using addComponent_defaults_coordinates
          [of "JStr ''Box''" "JStr ''b1''" "JStr ''7''" "JNum 7" Model]
  by (simp add: returns_def)

subsection \<open>Issuing a command\<close>




subsection \<open>Importing a file\<close>

text \<open>
  C6 (what the code does). For \<^verbatim>\<open>pkg/sub/mod.py\<close> the command issued by
  \<^verbatim>\<open>importFile\<close> is \<^verbatim>\<open>from pkg.sub.mod import *\<close>. For
  \<^verbatim>\<open>scripts/copy.py\<close> it is \<^verbatim>\<open>from scripts.c import *\<close>: the pattern
  \<^verbatim>\<open>/.py/g\<close> deletes every "py" together with the character before it, here
  "opy" as well as ".py".
\<close>

theorem importFile_deletes_every_py:
  "effects (importFile ''pkg/sub/mod.py'' Model) =
     [Ajax \<lparr>url = ''command'', http_type = Some ''POST'', dataType = None,
            data = Some [(''command'', JStr ''from pkg.sub.mod import *'')],
            success = Some (H_issueCommand JUndefined), error = Some JUndefined\<rparr>] \<and>
   effects (importFile ''scripts/copy.py'' Model) =
     [Ajax \<lparr>url = ''command'', http_type = Some ''POST'', dataType = None,
            data = Some [(''command'', JStr ''from scripts.c import *'')],
            success = Some (H_issueCommand JUndefined), error = Some JUndefined\<rparr>]"
  by (simp add: importFile_def issueCommand_def returns_def replace_char_def
        line_terminator_def)

subsection \<open>Running a file\<close>

lemma replace_char_single:
  "replace_char c [d] s = map (\<lambda>x. if x = c then d else x) s"
  by (induction s) (simp_all add: replace_char_def)

lemma execFile_path:
  "(let path = replace_char (CHR 0x5C) ''/'' filepath
    in if path \<noteq> [] \<and> hd path = CHR ''/'' then substring1 path else path) =
   relative_path filepath"
  by (cases filepath) (simp_all add: replace_char_single relative_path_def substring1_def)

lemma relative_path_no_backslash: "CHR 0x5C \<notin> set (relative_path p)"
proof -
  let ?q = "map (\<lambda>c. if c = CHR 0x5C then CHR ''/'' else c) p"
  have q: "CHR 0x5C \<notin> set ?q" by auto
  have "set (relative_path p) \<subseteq> set ?q"
    by (cases p) (auto simp: relative_path_def)
  with q show ?thesis by blast
qed

text \<open>
  C7. \<^verbatim>\<open>execFile\<close> clears the model cache and sends one POST request to
  \<^verbatim>\<open>exec\<close> whose filename is the given path with every backslash turned into a
  slash and then one leading slash dropped; no backslash is left in it, and for
  \<^verbatim>\<open>/a/b.py\<close> the filename sent is \<^verbatim>\<open>a/b.py\<close>.
\<close>

theorem execFile_sends_relative_path:
  "execFile filepath m =
     returns
       [Ajax \<lparr>url = ''exec'', http_type = Some ''POST'', dataType = None,
              data = Some [(''filename'', JStr (relative_path filepath))],
              success = Some H_updateListeners, error = None\<rparr>]
       (m\<lparr>modelJSON := JNull\<rparr>) \<and>
   CHR 0x5C \<notin> set (relative_path filepath) \<and>
   relative_path ''/a/b.py'' = ''a/b.py''"
proof -
  have "execFile filepath m =
     returns
       [Ajax \<lparr>url = ''exec'', http_type = Some ''POST'', dataType = None,
              data = Some [(''filename'', JStr (relative_path filepath))],
              success = Some H_updateListeners, error = None\<rparr>]
       (m\<lparr>modelJSON := JNull\<rparr>)"
    using execFile_path [of filepath] by (simp add: execFile_def Let_def)
  moreover have "relative_path ''/a/b.py'' = ''a/b.py''"
    by (simp add: relative_path_def)
  ultimately show ?thesis
    using relative_path_no_backslash by blast
qed

theorem execFile_sends_relative_path_witness:
  "requests (effects (execFile ''/a/b.py'' Model)) =
     [\<lparr>url = ''exec'', http_type = Some ''POST'', dataType = None,
       data = Some [(''filename'', JStr ''a/b.py'')],
       success = Some H_updateListeners, error = None\<rparr>] \<and>
   requests (effects (execFile [CHR 0x5C, CHR ''a'', CHR 0x5C, CHR ''b''] Model)) =
     [\<lparr>url = ''exec'', http_type = Some ''POST'', dataType = None,
       data = Some [(''filename'', JStr ''a/b'')],
       success = Some H_updateListeners, error = None\<rparr>] \<and>
   requests (effects (execFile ''//a'' Model)) =
     [\<lparr>url = ''exec'', http_type = Some ''POST'', dataType = None,
       data = Some [(''filename'', JStr ''/a'')],
       success = Some H_updateListeners, error = None\<rparr>]"
  using execFile_sends_relative_path [of "''/a/b.py''" Model]
        execFile_sends_relative_path [of "[CHR 0x5C, CHR ''a'', CHR 0x5C, CHR ''b'']" Model]
        execFile_sends_relative_path [of "''//a''" Model]
  by (simp add: returns_def relative_path_def)

end
